theory Spec2Isabelle
  imports Complex_Main "HOL-Library.Monad_Syntax"
begin

section \<open>Numbers\<close>

text \<open>
  The component computes with JavaScript numbers. A number is modelled by the value
  it denotes: a finite number by a rational, and the three values that are not
  finite by constructors of their own, so that a division by zero is the infinity
  or the NaN that JavaScript yields and not HOL's \<open>x / 0 = 0\<close>.

  Arithmetic on finite values is exact here: the rounding of a result to 53
  significant bits, overflow to an infinity and the sign of a zero are not
  modelled (a zero divisor is read as \<open>+0\<close>). A decimal, in the source or read
  by \<open>parseFloat\<close>, is the rational it spells. The properties proved below speak
  of a product, a quotient or a sum as the operation returns it; where one is
  evaluated, it is one that double arithmetic returns without rounding as well
  (\<open>b / b\<close>, \<open>q * 1\<close>, a doubling, sums and quotients of small binary fractions).
\<close>

datatype jsnum = Num rat | PosInf | NegInf | NaN

text \<open>The infinity with the sign of \<open>s\<close>; \<open>NaN\<close> where the sign is that of a zero.\<close>

definition inf_of_sign :: "rat \<Rightarrow> jsnum" where
  "inf_of_sign s = (if 0 < s then PosInf else if s < 0 then NegInf else NaN)"

fun sign_of :: "jsnum \<Rightarrow> rat" where
  "sign_of (Num a) = sgn a"
| "sign_of PosInf = 1"
| "sign_of NegInf = - 1"
| "sign_of NaN = 0"

text \<open>\<open>x * y\<close>\<close>

fun js_times :: "jsnum \<Rightarrow> jsnum \<Rightarrow> jsnum" where
  "js_times NaN y = NaN"
| "js_times x NaN = NaN"
| "js_times (Num a) (Num b) = Num (a * b)"
| "js_times x y = inf_of_sign (sign_of x * sign_of y)"

text \<open>\<open>x / y\<close>\<close>

fun js_divide :: "jsnum \<Rightarrow> jsnum \<Rightarrow> jsnum" where
  "js_divide NaN y = NaN"
| "js_divide x NaN = NaN"
| "js_divide (Num a) (Num b) = (if b = 0 then inf_of_sign (sgn a) else Num (a / b))"
| "js_divide (Num a) y = Num 0"
| "js_divide x (Num b) = inf_of_sign (if b < 0 then - sign_of x else sign_of x)"
| "js_divide x y = NaN"

text \<open>\<open>x + y\<close>\<close>

fun js_plus :: "jsnum \<Rightarrow> jsnum \<Rightarrow> jsnum" where
  "js_plus NaN y = NaN"
| "js_plus x NaN = NaN"
| "js_plus (Num a) (Num b) = Num (a + b)"
| "js_plus (Num a) y = y"
| "js_plus x (Num b) = x"
| "js_plus x y = (if x = y then x else NaN)"

text \<open>\<open>x < y\<close> and \<open>x >= y\<close>: both are false when an operand is \<open>NaN\<close>.\<close>

fun js_less :: "jsnum \<Rightarrow> jsnum \<Rightarrow> bool" where
  "js_less NaN y = False"
| "js_less x NaN = False"
| "js_less (Num a) (Num b) = (a < b)"
| "js_less x PosInf = (x \<noteq> PosInf)"
| "js_less NegInf y = (y \<noteq> NegInf)"
| "js_less x y = False"

definition js_ge :: "jsnum \<Rightarrow> jsnum \<Rightarrow> bool" where
  "js_ge x y = (x \<noteq> NaN \<and> y \<noteq> NaN \<and> \<not> js_less x y)"

text \<open>\<open>Number.isInteger(x)\<close>: a finite number with no fractional part.\<close>

fun isInteger :: "jsnum \<Rightarrow> bool" where
  "isInteger (Num a) = (of_int \<lfloor>a\<rfloor> = a)"
| "isInteger x = False"

text \<open>
  \<open>Number.parseFloat(x.toFixed(f))\<close>, for \<open>f\<close> from 0 to 100. ECMA-262,
  Number.prototype.toFixed: a number that is not finite is printed by name, and
  \<open>parseFloat\<close> reads that name back. Otherwise the sign is split off; a magnitude
  of \<open>10^21\<close> or more is printed as \<open>ToString\<close> prints it, which
  \<open>parseFloat\<close> reads back as the same number; below that the digits are those of
  the integer \<open>n\<close> for which \<open>n / 10^f\<close> is closest to the magnitude, the larger
  \<open>n\<close> on a tie, and \<open>parseFloat\<close> reads the decimal back.
\<close>

definition parseFloat_toFixed :: "nat \<Rightarrow> jsnum \<Rightarrow> jsnum" where
  "parseFloat_toFixed f x =
     (case x of
        Num r \<Rightarrow>
          (if 10 ^ 21 \<le> \<bar>r\<bar> then Num r
           else Num (sgn r * (of_int \<lfloor>\<bar>r\<bar> * 10 ^ f + 1 / 2\<rfloor> / 10 ^ f)))
      | _ \<Rightarrow> x)"

section \<open>Recipes and the serving calculator\<close>

text \<open>
  Of a recipe, the calculator of \<open>RecipeCard\<close> reads \<open>baseServings\<close> and, of each
  ingredient, \<open>quantity\<close>; name and unit are rendered beside the result.
\<close>

record RecipeIngredient =
  ing_name :: string
  ing_quantity :: jsnum
  ing_unit :: string

record Recipe =
  baseServings :: jsnum
  ingredients :: "RecipeIngredient list"

definition formatQuantity :: "jsnum \<Rightarrow> jsnum" where
  "formatQuantity quantity =
     (if js_less quantity (Num 1) then parseFloat_toFixed 2 quantity
      else if isInteger quantity then quantity
      else parseFloat_toFixed 1 quantity)"

definition multiplier :: "Recipe \<Rightarrow> jsnum \<Rightarrow> jsnum" where
  "multiplier recipe servings = js_divide servings (baseServings recipe)"

text \<open>
  The list under "Adjusted ingredients": each ingredient of the recipe with the
  quantity displayed for it at \<open>servings\<close> servings.
\<close>

definition adjustedIngredients :: "Recipe \<Rightarrow> jsnum \<Rightarrow> (RecipeIngredient \<times> jsnum) list" where
  "adjustedIngredients recipe servings =
     map (\<lambda>ingredient.
            (ingredient,
             formatQuantity (js_times (ing_quantity ingredient) (multiplier recipe servings))))
         (ingredients recipe)"

text \<open>
  The calculator as a function that may reject its arguments. \<open>RecipeCard\<close> has no
  \<open>throw\<close>, and neither the arithmetic nor \<open>toFixed(1)\<close>, \<open>toFixed(2)\<close>,
  \<open>parseFloat\<close> and \<open>Number.isInteger\<close> throw on a number: every call ends in the
  list.
\<close>

datatype error = ValidationError

definition scale :: "Recipe \<Rightarrow> jsnum \<Rightarrow> error + (RecipeIngredient \<times> jsnum) list" where
  "scale recipe servings = Inr (adjustedIngredients recipe servings)"

section \<open>Strings\<close>

text \<open>
  A JavaScript string is a sequence of UTF-16 code units. The model is \<open>string\<close>,
  a \<open>char\<close> standing for the code unit of the same number: the strings of the model
  are those over U+0000 to U+00FF.
\<close>

text \<open>
  White space and line terminators, what \<open>trim\<close> strips and \<open>\s\<close> matches: TAB, LF,
  VT, FF, CR, SP and NBSP below U+0100.
\<close>

definition isWhiteSpace :: "char \<Rightarrow> bool" where
  "isWhiteSpace c = (of_char c \<in> {9, 10, 11, 12, 13, 32, 160 :: nat})"

text \<open>\<open>\d\<close>\<close>

definition isDigit :: "char \<Rightarrow> bool" where
  "isDigit c = (48 \<le> (of_char c :: nat) \<and> (of_char c :: nat) \<le> 57)"

text \<open>\<open>\w\<close>: \<open>[A-Za-z0-9_]\<close>\<close>

definition isWordChar :: "char \<Rightarrow> bool" where
  "isWordChar c =
     (let n = of_char c :: nat
      in (65 \<le> n \<and> n \<le> 90) \<or> (97 \<le> n \<and> n \<le> 122) \<or> (48 \<le> n \<and> n \<le> 57) \<or> n = 95)"

text \<open>\<open>.\<close> without the \<open>s\<close> flag: any code unit but a line terminator (LF, CR).\<close>

definition isDot :: "char \<Rightarrow> bool" where
  "isDot c = (of_char c \<notin> {10, 13 :: nat})"

definition trim :: "string \<Rightarrow> string" where
  "trim s = rev (dropWhile isWhiteSpace (rev (dropWhile isWhiteSpace s)))"

text \<open>
  \<open>toLowerCase\<close>: below U+0100 the letters with a lowercase form are A to Z and
  U+00C0 to U+00DE without the multiplication sign U+00D7; the lowercase form is 32
  further on.
\<close>

definition toLowerCase_char :: "char \<Rightarrow> char" where
  "toLowerCase_char c =
     (let n = of_char c :: nat
      in if (65 \<le> n \<and> n \<le> 90) \<or> (192 \<le> n \<and> n \<le> 222 \<and> n \<noteq> 215)
         then char_of (n + 32) else c)"

definition toLowerCase :: "string \<Rightarrow> string" where
  "toLowerCase s = map toLowerCase_char s"

text \<open>
  \<open>input.split(/,|\n/)\<close>: the pieces between the commas and line feeds of the
  input, empty pieces included; an input without separator is the one piece.
\<close>

fun split_entries :: "string \<Rightarrow> string list" where
  "split_entries [] = [[]]"
| "split_entries (c # cs) =
     (if c = CHR '','' \<or> c = CHR 0x0A then [] # split_entries cs
      else (case split_entries cs of
              [] \<Rightarrow> [[c]]
            | piece # pieces \<Rightarrow> (c # piece) # pieces))"

text \<open>
  \<open>Number.parseFloat\<close> on the strings it is given here, capture group 1 of the
  entry pattern: decimal digits, then optionally a point and decimal digits. The
  result is the number the decimal spells. (Signs, exponents, leading white space
  and a leading point, which \<open>parseFloat\<close> also reads, cannot occur in the group
  and are not modelled: here a string that does not start with a digit gives
  \<open>NaN\<close>.)
\<close>

definition digits_value :: "string \<Rightarrow> nat" where
  "digits_value ds = foldl (\<lambda>acc c. 10 * acc + (of_char c - 48)) 0 ds"

definition parseFloat :: "string \<Rightarrow> jsnum" where
  "parseFloat s =
     (let whole = takeWhile isDigit s; rest = dropWhile isDigit s
      in if whole = [] then NaN
         else (case rest of
                 c # after \<Rightarrow>
                   (if c = CHR ''.''
                    then (let frac = takeWhile isDigit after
                          in Num (of_nat (digits_value whole)
                                  + of_nat (digits_value frac) / 10 ^ length frac))
                    else Num (of_nat (digits_value whole)))
               | [] \<Rightarrow> Num (of_nat (digits_value whole))))"

section \<open>Manual entry\<close>

record PantryItem =
  name :: string
  quantity :: "jsnum option"

text \<open>
  The pattern \<open>/^(\d+(?:\.\d+)?)\s*(\w+)?\s+(.*)$/\<close> is matched by backtracking.
  Each piece of the pattern is modelled by the list of the ways it can match at the
  front of a string, a way being the matched text and the rest of the string, in the
  order in which the matcher tries them; the matches of the pattern are the ways
  through all pieces that end at the end of the string, in that order, and
  \<open>entry.match\<close> returns the first.
\<close>

text \<open>A greedy \<open>*\<close> on a class of characters: the longest run first, the empty run last.\<close>

fun greedy_star :: "(char \<Rightarrow> bool) \<Rightarrow> string \<Rightarrow> (string \<times> string) list" where
  "greedy_star p [] = [([], [])]"
| "greedy_star p (c # cs) =
     (if p c then map (\<lambda>(m, r). (c # m, r)) (greedy_star p cs) @ [([], c # cs)]
      else [([], c # cs)])"

text \<open>A greedy \<open>+\<close>: as \<open>*\<close>, without the empty run.\<close>

definition greedy_plus :: "(char \<Rightarrow> bool) \<Rightarrow> string \<Rightarrow> (string \<times> string) list" where
  "greedy_plus p s = filter (\<lambda>(m, r). m \<noteq> []) (greedy_star p s)"

text \<open>\<open>(?:\.\d+)?\<close>: a point and digits if there are, else nothing.\<close>

definition opt_fraction :: "string \<Rightarrow> (string \<times> string) list" where
  "opt_fraction s =
     (case s of
        c # cs \<Rightarrow>
          (if c = CHR ''.'' then map (\<lambda>(m, r). (c # m, r)) (greedy_plus isDigit cs) else [])
      | [] \<Rightarrow> [])
     @ [([], s)]"

text \<open>\<open>(\w+)?\<close>: the group with a run of word characters, else the group unset.\<close>

definition opt_unit :: "string \<Rightarrow> (string option \<times> string) list" where
  "opt_unit s = map (\<lambda>(m, r). (Some m, r)) (greedy_plus isWordChar s) @ [(None, s)]"

definition entry_matches :: "string \<Rightarrow> (string \<times> string option \<times> string) list" where
  "entry_matches entry =
     do {
       (int_part, r1) \<leftarrow> greedy_plus isDigit entry;
       (frac_part, r2) \<leftarrow> opt_fraction r1;
       (_, r3) \<leftarrow> greedy_star isWhiteSpace r2;
       (unit, r4) \<leftarrow> opt_unit r3;
       (_, r5) \<leftarrow> greedy_plus isWhiteSpace r4;
       (name', r6) \<leftarrow> greedy_star isDot r5;
       if r6 = [] then [(int_part @ frac_part, unit, name')] else []
     }"

definition entry_match :: "string \<Rightarrow> (string \<times> string option \<times> string) option" where
  "entry_match entry = (case entry_matches entry of [] \<Rightarrow> None | m # _ \<Rightarrow> Some m)"

text \<open>The function mapped over the entries.\<close>

definition parse_entry :: "string \<Rightarrow> PantryItem" where
  "parse_entry entry =
     (case entry_match entry of
        Some (qty, unit, name') \<Rightarrow>
          (let prettyName = (case unit of Some u \<Rightarrow> u @ '' '' @ name' | None \<Rightarrow> name')
           in \<lparr>name = trim prettyName, quantity = Some (parseFloat qty)\<rparr>)
      | None \<Rightarrow> \<lparr>name = entry, quantity = None\<rparr>)"

definition parseManualEntry :: "string \<Rightarrow> PantryItem list" where
  "parseManualEntry input =
     map parse_entry (filter (\<lambda>entry. entry \<noteq> []) (map trim (split_entries input)))"

section \<open>Ingredients from vision\<close>

text \<open>
  The labels \<open>allowedVisionLabels\<close> is built from, in the order of the source (two
  of them are listed twice); \<open>allowedVisionLabels.has\<close> is membership in the set of
  this list.
\<close>

definition allowedVisionLabels :: "string list" where
  "allowedVisionLabels =
     [''apple'', ''banana'', ''orange'', ''carrot'', ''broccoli'', ''cucumber'', ''tomato'',
      ''potato'', ''lemon'', ''lime'', ''pepper'', ''bell pepper'', ''cabbage'', ''lettuce'',
      ''onion'', ''garlic'', ''zucchini'', ''eggplant'', ''avocado'', ''mushroom'', ''egg'',
      ''bread'', ''sandwich'', ''pizza'', ''cake'', ''donut'', ''bowl'', ''apple'', ''banana'',
      ''grapes'', ''kiwi'', ''strawberry'', ''pineapple'', ''cheese'', ''yogurt'']"

text \<open>
  A prediction of the vision model, of which \<open>class\<close> and \<open>score\<close> are read, and
  the pair kept of it.
\<close>

record Prediction =
  pred_class :: string
  pred_score :: jsnum

record Ingredient =
  score :: jsnum
  className :: string

text \<open>
  The constant \<open>ingredients\<close> of \<open>detectIngredients\<close>. The literal \<open>0.4\<close> is the
  least number that is not below 2/5, so that \<open>score >= 0.4\<close> holds of a number
  exactly when its value is at least 2/5.
\<close>

definition detected_ingredients :: "Prediction list \<Rightarrow> Ingredient list" where
  "detected_ingredients predictions =
     filter (\<lambda>ingredient. className ingredient \<in> set allowedVisionLabels)
       (map (\<lambda>prediction.
               \<lparr>score = pred_score prediction,
                className = toLowerCase (pred_class prediction)\<rparr>)
          (filter (\<lambda>prediction. js_ge (pred_score prediction) (Num (2 / 5))) predictions))"

text \<open>
  What \<open>detectIngredients\<close> does with the predictions of the model: \<open>pantry\<close> is the
  list it hands to \<open>handleAddPantryItems\<close>, empty when it returns before the call
  (\<open>handleAddPantryItems\<close> ignores an empty list), and \<open>visionConfidence\<close> the
  number it passes to \<open>setVisionConfidence\<close>. The status text is left out.
\<close>

record DetectionOutcome =
  pantry :: "PantryItem list"
  visionConfidence :: jsnum

definition detectIngredients :: "Prediction list \<Rightarrow> DetectionOutcome" where
  "detectIngredients predictions =
     (let found = detected_ingredients predictions
      in if found = [] then \<lparr>pantry = [], visionConfidence = Num 0\<rparr>
         else
           \<lparr>pantry =
              map (\<lambda>ingredient.
                     \<lparr>name = className ingredient,
                      quantity =
                        Some (parseFloat_toFixed 2 (js_times (score ingredient) (Num 2)))\<rparr>)
                  found,
            visionConfidence =
              js_divide
                (foldl (\<lambda>total ingredient. js_plus total (score ingredient)) (Num 0) found)
                (Num (of_nat (length found)))\<rparr>)"

section \<open>The properties as the specification words them\<close>

text \<open>A rational that is a whole number.\<close>

definition is_whole :: "rat \<Rightarrow> bool" where
  "is_whole r = (of_int \<lfloor>r\<rfloor> = r)"

text \<open>
  \<open>y\<close> is \<open>x\<close> rounded to \<open>k\<close> decimal places: \<open>y\<close> has no more than \<open>k\<close>
  decimals, and is no further from \<open>x\<close> than half a unit of the last place.
\<close>

definition rounded_to :: "nat \<Rightarrow> rat \<Rightarrow> rat \<Rightarrow> bool" where
  "rounded_to k x y = (is_whole (y * 10 ^ k) \<and> \<bar>y - x\<bar> * (2 * 10 ^ k) \<le> 1)"

text \<open>
  The rationals of the model are more than the values of JavaScript numbers. A number
  of magnitude \<open>2^52\<close> or more has no fractional part; a rational that has one there
  is the value of no number.
\<close>

definition whole_from_2_52 :: "rat \<Rightarrow> bool" where
  "whole_from_2_52 r = (2 ^ 52 \<le> \<bar>r\<bar> \<longrightarrow> is_whole r)"

text \<open>
  The normal form of an item name in the words of the specification: surrounding
  white space trimmed, each run of white space inside collapsed to one space,
  lowercased.
\<close>

fun collapse :: "string \<Rightarrow> string" where
  "collapse [] = []"
| "collapse [c] = [if isWhiteSpace c then CHR '' '' else c]"
| "collapse (c # d # cs) =
     (if isWhiteSpace c then (if isWhiteSpace d then collapse (d # cs) else CHR '' '' # collapse (d # cs))
      else c # collapse (d # cs))"

definition normalize :: "string \<Rightarrow> string" where
  "normalize raw = toLowerCase (collapse (trim raw))"

text \<open>A bare number: decimal digits, then optionally a point and decimal digits.\<close>

definition bare_number :: "string \<Rightarrow> bool" where
  "bare_number s =
     (let whole = takeWhile isDigit s; rest = dropWhile isDigit s
      in whole \<noteq> [] \<and>
         (rest = [] \<or> (hd rest = CHR ''.'' \<and> tl rest \<noteq> [] \<and> list_all isDigit (tl rest))))"

text \<open>
  The detections that survive: confidence at least 0.4 and the lowercased label in
  the allow-list.
\<close>

definition surviving :: "Prediction list \<Rightarrow> Prediction list" where
  "surviving predictions =
     filter (\<lambda>p. js_ge (pred_score p) (Num (2 / 5))
                \<and> toLowerCase (pred_class p) \<in> set allowedVisionLabels)
       predictions"



section \<open>Rounding to decimal places\<close>

lemma is_whole_Ints: "is_whole r \<longleftrightarrow> r \<in> \<int>"
  by (auto simp: is_whole_def Ints_def)

lemma is_whole_of_int: "is_whole (of_int n)"
  by (simp add: is_whole_def)

lemma is_whole_mult: "is_whole a \<Longrightarrow> is_whole b \<Longrightarrow> is_whole (a * b)"
  by (simp add: is_whole_Ints)

lemma is_whole_minus: "is_whole a \<Longrightarrow> is_whole (- a)"
  by (simp add: is_whole_Ints)

lemma is_whole_power10: "is_whole (10 ^ k)"
  by (simp add: is_whole_Ints)

lemma floor_half: "\<lfloor>1 / 2 :: rat\<rfloor> = 0"
  by (simp add: floor_eq_iff)

lemma within_half:
  "(n::rat) \<le> a + 1 / 2 \<Longrightarrow> a + 1 / 2 < n + 1 \<Longrightarrow> \<bar>n - a\<bar> * 2 \<le> 1"
  by (cases "n - a < 0") simp_all

lemma half_up_close: "\<bar>of_int \<lfloor>a + 1 / 2\<rfloor> - (a::rat)\<bar> * 2 \<le> 1"
proof -
  have "of_int \<lfloor>a + 1 / 2\<rfloor> \<le> a + 1 / 2" by (rule of_int_floor_le)
  moreover have "a + 1 / 2 < of_int \<lfloor>a + 1 / 2\<rfloor> + 1"
    using floor_correct [of "a + 1 / 2"] by simp
  ultimately show ?thesis by (rule within_half)
qed

lemma fixed_rounded_pos:
  "rounded_to k a (of_int \<lfloor>a * 10 ^ k + 1 / 2\<rfloor> / 10 ^ k)"
proof -
  define n :: rat where "n = of_int \<lfloor>a * 10 ^ k + 1 / 2\<rfloor>"
  have w: "is_whole (n / 10 ^ k * 10 ^ k)"
    by (simp add: n_def is_whole_of_int)
  have "(n / 10 ^ k - a) * 10 ^ k = n - a * 10 ^ k"
    by (simp add: field_simps)
  then have "\<bar>n - a * 10 ^ k\<bar> = \<bar>n / 10 ^ k - a\<bar> * \<bar>10 ^ k\<bar>"
    by (simp only: abs_mult [symmetric])
  then have "\<bar>n / 10 ^ k - a\<bar> * 10 ^ k = \<bar>n - a * 10 ^ k\<bar>"
    by simp
  then have "\<bar>n / 10 ^ k - a\<bar> * (2 * 10 ^ k) = \<bar>n - a * 10 ^ k\<bar> * 2"
    by simp
  also have "\<dots> \<le> 1" unfolding n_def by (rule half_up_close)
  finally show ?thesis using w unfolding rounded_to_def n_def by blast
qed

lemma rounded_to_minus: "rounded_to k a y \<Longrightarrow> rounded_to k (- a) (- y)"
proof -
  assume h: "rounded_to k a y"
  have "\<bar>- y - - a\<bar> = \<bar>y - a\<bar>" by simp
  moreover have "is_whole (- y * 10 ^ k)"
    using h is_whole_minus [of "y * 10 ^ k"] by (simp add: rounded_to_def)
  ultimately show ?thesis using h by (simp only: rounded_to_def)
qed

lemma fixed_rounded:
  "rounded_to k r (sgn r * (of_int \<lfloor>\<bar>r\<bar> * 10 ^ k + 1 / 2\<rfloor> / 10 ^ k))"
proof (cases "0 \<le> r")
  case True
  show ?thesis
  proof (cases "r = 0")
    case True
    then show ?thesis by (simp add: rounded_to_def is_whole_def)
  next
    case False
    with \<open>0 \<le> r\<close> have "sgn r = 1" "\<bar>r\<bar> = r" by simp_all
    then show ?thesis using fixed_rounded_pos [of k r] by simp
  qed
next
  case False
  then have s: "sgn r = - 1" "\<bar>r\<bar> = - r" by simp_all
  have "rounded_to k (- (- r)) (- (of_int \<lfloor>(- r) * 10 ^ k + 1 / 2\<rfloor> / 10 ^ k))"
    by (rule rounded_to_minus) (rule fixed_rounded_pos)
  then show ?thesis by (simp add: s)
qed

lemma rounded_self: "is_whole r \<Longrightarrow> rounded_to k r r"
  by (simp add: rounded_to_def is_whole_mult is_whole_power10)

lemma parseFloat_toFixed_rounded_gen:
  assumes "10 ^ 21 \<le> \<bar>r\<bar> \<Longrightarrow> is_whole r"
  shows "\<exists>y. parseFloat_toFixed k (Num r) = Num y \<and> rounded_to k r y"
proof (cases "10 ^ 21 \<le> \<bar>r\<bar>")
  case True
  with assms have "is_whole r" by simp
  with True show ?thesis by (simp add: parseFloat_toFixed_def rounded_self)
next
  case False
  then have "parseFloat_toFixed k (Num r)
      = Num (sgn r * (of_int \<lfloor>\<bar>r\<bar> * 10 ^ k + 1 / 2\<rfloor> / 10 ^ k))"
    by (simp add: parseFloat_toFixed_def)
  then show ?thesis using fixed_rounded by blast
qed

lemma parseFloat_toFixed_rounded:
  assumes "whole_from_2_52 r"
  shows "\<exists>y. parseFloat_toFixed k (Num r) = Num y \<and> rounded_to k r y"
proof (rule parseFloat_toFixed_rounded_gen)
  assume "10 ^ 21 \<le> \<bar>r\<bar>"
  moreover have "(2::rat) ^ 52 \<le> 10 ^ 21" by simp
  ultimately have "2 ^ 52 \<le> \<bar>r\<bar>" by linarith
  with assms show "is_whole r" by (simp add: whole_from_2_52_def)
qed

lemma parseFloat_toFixed_nonneg:
  assumes "0 \<le> r" "r < 10 ^ 21"
  shows "parseFloat_toFixed k (Num r) = Num (of_int \<lfloor>r * 10 ^ k + 1 / 2\<rfloor> / 10 ^ k)"
proof (cases "r = 0")
  case True
  then show ?thesis by (simp add: parseFloat_toFixed_def floor_half)
next
  case False
  with assms have "sgn r = 1" "\<bar>r\<bar> = r" "\<not> 10 ^ 21 \<le> \<bar>r\<bar>" by simp_all
  then show ?thesis by (simp add: parseFloat_toFixed_def)
qed

section \<open>Properties of the serving calculator\<close>

lemma formatQuantity_small:
  assumes "0 \<le> r" "r < 1"
  shows "formatQuantity (Num r) = Num (of_int \<lfloor>r * 10 ^ 2 + 1 / 2\<rfloor> / 10 ^ 2)"
proof -
  from assms have "r < 10 ^ 21" by simp
  with assms(1) have "parseFloat_toFixed 2 (Num r) = Num (of_int \<lfloor>r * 10 ^ 2 + 1 / 2\<rfloor> / 10 ^ 2)"
    by (rule parseFloat_toFixed_nonneg)
  with assms show ?thesis by (simp add: formatQuantity_def)
qed

lemma formatQuantity_large:
  assumes "1 \<le> r"
  shows "\<exists>y. formatQuantity (Num r) = Num y \<and> 1 \<le> y"
proof -
  consider "isInteger (Num r)" | "\<not> isInteger (Num r)" "10 ^ 21 \<le> r"
    | "\<not> isInteger (Num r)" "r < 10 ^ 21" by linarith
  then show ?thesis
  proof cases
    case 1
    with assms have "formatQuantity (Num r) = Num r" by (simp add: formatQuantity_def)
    with assms show ?thesis by blast
  next
    case 2
    with assms have "formatQuantity (Num r) = Num r"
      by (simp add: formatQuantity_def parseFloat_toFixed_def)
    with assms show ?thesis by blast
  next
    case 3
    define n where "n = \<lfloor>r * 10 ^ 1 + 1 / 2\<rfloor>"
    from assms have "0 \<le> r" by simp
    from this 3(2) have "parseFloat_toFixed 1 (Num r) = Num (of_int n / 10 ^ 1)"
      unfolding n_def by (rule parseFloat_toFixed_nonneg)
    with assms 3(1) have f: "formatQuantity (Num r) = Num (of_int n / 10 ^ 1)"
      by (simp add: formatQuantity_def)
    have "(10::int) \<le> n" using assms by (simp add: n_def le_floor_iff)
    then have "(10::rat) \<le> of_int n" by linarith
    then have "(1::rat) \<le> of_int n / 10 ^ 1" by simp
    with f show ?thesis by blast
  qed
qed

lemma js_times_one: "js_times x (Num 1) = x"
  by (cases x) (simp_all add: inf_of_sign_def)

text \<open>
  C3, as the code has it. The calculator never signals an error, whatever the
  serving count and the base servings are, zero and negative numbers included: for
  every serving count, inside the range of the slider or not, the result is the list
  of the recipe's ingredients, each with the displayed form of its quantity times
  the serving count over the base servings.
\<close>

theorem scale_never_rejects:
  "scale recipe servings =
     Inr (map (\<lambda>ingredient.
                 (ingredient,
                  formatQuantity
                    (js_times (ing_quantity ingredient)
                       (js_divide servings (baseServings recipe)))))
              (ingredients recipe))
   \<and> scale recipe servings \<noteq> Inl ValidationError"
  by (simp add: scale_def adjustedIngredients_def multiplier_def)

text \<open>
  C3 as stated asks for an error when the serving count is not positive. At zero
  servings of a recipe for four the calculator returns the list, the two limes
  displayed as 0.
\<close>

theorem scale_zero_servings_accepted:
  "scale \<lparr>baseServings = Num 4,
           ingredients = [\<lparr>ing_name = ''lime'', ing_quantity = Num 2, ing_unit = ''pcs''\<rparr>]\<rparr>
         (Num 0)
   = Inr [(\<lparr>ing_name = ''lime'', ing_quantity = Num 2, ing_unit = ''pcs''\<rparr>, Num 0)]"
  by (simp add: scale_def adjustedIngredients_def multiplier_def formatQuantity_def
        parseFloat_toFixed_def floor_half)

lemma formatQuantity_nonneg:
  assumes "0 \<le> raw"
  shows "\<exists>y. formatQuantity (Num raw) = Num y \<and> 0 \<le> y \<and> (0 < y \<longleftrightarrow> 1 / 200 \<le> raw)"
proof (cases "raw < 1")
  case True
  define n where "n = \<lfloor>raw * 10 ^ 2 + 1 / 2\<rfloor>"
  have f: "formatQuantity (Num raw) = Num (of_int n / 10 ^ 2)"
    unfolding n_def using assms True by (rule formatQuantity_small)
  have n0: "0 \<le> n" using assms by (simp add: n_def)
  have "0 < n \<longleftrightarrow> 1 \<le> n" by linarith
  also have "\<dots> \<longleftrightarrow> 1 \<le> raw * 10 ^ 2 + 1 / 2" by (simp add: n_def le_floor_iff)
  also have "\<dots> \<longleftrightarrow> 1 / 200 \<le> raw" by (simp add: field_simps)
  finally have iff: "0 < n \<longleftrightarrow> 1 / 200 \<le> raw" .
  have "(0::rat) \<le> of_int n / 10 ^ 2" using n0 by simp
  moreover have "(0::rat) < of_int n / 10 ^ 2 \<longleftrightarrow> 1 / 200 \<le> raw" using iff by simp
  ultimately show ?thesis using f by blast
next
  case False
  then have r1: "1 \<le> raw" by simp
  from formatQuantity_large [OF this] obtain y
    where y: "formatQuantity (Num raw) = Num y" "1 \<le> y" by blast
  from y(2) have "0 \<le> y" "0 < y" by simp_all
  moreover from r1 have "1 / 200 \<le> raw" by simp
  ultimately show ?thesis using y(1) by blast
qed

text \<open>
  C4, as the code has it. Whenever the raw scaled quantity of an ingredient, its
  quantity times the serving count over the base servings as the calculator computes
  it, is a finite number that is not negative, the quantity displayed for the
  ingredient is a finite number that is not negative, and it is above 0 exactly when
  the raw scaled quantity is at least 0.005; a smaller one is displayed as 0.
\<close>

theorem displayed_positive_iff:
  assumes "(ingredient, shown) \<in> set (adjustedIngredients recipe servings)"
    and "js_times (ing_quantity ingredient) (js_divide servings (baseServings recipe)) = Num raw"
    and "0 \<le> raw"
  shows "\<exists>y. shown = Num y \<and> 0 \<le> y \<and> (0 < y \<longleftrightarrow> 1 / 200 \<le> raw)"
proof -
  from assms(1)
  have "shown = formatQuantity
                  (js_times (ing_quantity ingredient) (js_divide servings (baseServings recipe)))"
    by (auto simp: adjustedIngredients_def multiplier_def)
  with assms(2) have "shown = formatQuantity (Num raw)" by simp
  with formatQuantity_nonneg [OF assms(3)] show ?thesis by simp
qed

theorem displayed_positive_iff_witness:
  "(\<lparr>ing_name = ''salt'', ing_quantity = Num (1 / 4), ing_unit = ''tsp''\<rparr>, Num (3 / 50))
     \<in> set (adjustedIngredients
          \<lparr>baseServings = Num 4,
           ingredients = [\<lparr>ing_name = ''salt'', ing_quantity = Num (1 / 4), ing_unit = ''tsp''\<rparr>]\<rparr>
          (Num 1))
   \<and> js_times (Num (1 / 4)) (js_divide (Num 1) (Num 4)) = Num (1 / 16)
   \<and> (0::rat) \<le> 1 / 16
   \<and> (\<exists>y. Num (3 / 50) = Num y \<and> 0 \<le> y \<and> (0 < y \<longleftrightarrow> (1 / 200 :: rat) \<le> 1 / 16))"
proof -
  let ?i = "\<lparr>ing_name = ''salt'', ing_quantity = Num (1 / 4), ing_unit = ''tsp''\<rparr>"
  let ?r = "\<lparr>baseServings = Num 4, ingredients = [?i]\<rparr>"
  have "\<lfloor>(25 / 4 :: rat) + 1 / 2\<rfloor> = 6" by (simp add: floor_eq_iff)
  then have h1: "(?i, Num (3 / 50)) \<in> set (adjustedIngredients ?r (Num 1))"
    by (simp add: adjustedIngredients_def multiplier_def formatQuantity_def
          parseFloat_toFixed_def)
  have h2: "js_times (ing_quantity ?i) (js_divide (Num 1) (baseServings ?r)) = Num (1 / 16)"
    by simp
  have h3: "(0::rat) \<le> 1 / 16" by simp
  from displayed_positive_iff [OF h1 h2 h3] h1 h2 h3 show ?thesis by simp
qed

text \<open>
  C4 as stated fails: one serving of a recipe for one with 1/256 (0.00390625) of a
  gram of saffron displays the quantity 0.
\<close>

theorem tiny_quantity_displays_zero:
  "map snd (adjustedIngredients
      \<lparr>baseServings = Num 1,
       ingredients = [\<lparr>ing_name = ''saffron'', ing_quantity = Num (1 / 256), ing_unit = ''g''\<rparr>]\<rparr>
      (Num 1)) = [Num 0]"
  by (simp add: adjustedIngredients_def multiplier_def formatQuantity_def
        parseFloat_toFixed_def floor_eq_iff)

text \<open>
  C8. The displayed form of a finite raw quantity is a number that follows the
  policy: below 1 it is the raw quantity rounded to 2 decimal places; from 1 on it
  is the raw quantity itself when that is a whole number, and the raw quantity
  rounded to 1 decimal place otherwise.
\<close>

theorem formatQuantity_policy:
  assumes "whole_from_2_52 raw"
  shows "\<exists>y. formatQuantity (Num raw) = Num y \<and>
           (if raw < 1 then rounded_to 2 raw y
            else if is_whole raw then y = raw
            else rounded_to 1 raw y)"
  using parseFloat_toFixed_rounded [OF assms, of 2] parseFloat_toFixed_rounded [OF assms, of 1]
  by (auto simp: formatQuantity_def is_whole_def)

theorem formatQuantity_policy_witness:
  "whole_from_2_52 (9 / 4)
   \<and> (\<exists>y. formatQuantity (Num (9 / 4)) = Num y \<and>
           (if (9 / 4 :: rat) < 1 then rounded_to 2 (9 / 4) y
            else if is_whole (9 / 4) then y = 9 / 4
            else rounded_to 1 (9 / 4) y))"
proof -
  have h: "whole_from_2_52 (9 / 4)" by (simp add: whole_from_2_52_def)
  from formatQuantity_policy [OF h] show ?thesis using h by blast
qed

text \<open>
  C9. At a serving count equal to the base servings of the recipe (a number other
  than 0) every ingredient is listed with the displayed form of its own quantity;
  the quantity 2 is displayed as 2, and a quantity from 0.325 up to, not including,
  0.335, as a third is, is displayed as 0.33.
\<close>

theorem scale_to_baseServings:
  assumes "baseServings recipe = Num b" "b \<noteq> 0"
  shows "adjustedIngredients recipe (baseServings recipe) =
           map (\<lambda>ingredient. (ingredient, formatQuantity (ing_quantity ingredient)))
               (ingredients recipe)
         \<and> formatQuantity (Num 2) = Num 2
         \<and> (\<forall>q. 13 / 40 \<le> q \<and> q < 67 / 200 \<longrightarrow> formatQuantity (Num q) = Num (33 / 100))"
proof (intro conjI allI impI)
  show "adjustedIngredients recipe (baseServings recipe) =
           map (\<lambda>ingredient. (ingredient, formatQuantity (ing_quantity ingredient)))
               (ingredients recipe)"
    using assms by (simp add: adjustedIngredients_def multiplier_def js_times_one)
  show "formatQuantity (Num 2) = Num 2"
    by (simp add: formatQuantity_def)
next
  fix q :: rat
  assume q: "13 / 40 \<le> q \<and> q < 67 / 200"
  then have "\<lfloor>q * 10 ^ 2 + 1 / 2\<rfloor> = 33" by (simp add: floor_eq_iff)
  moreover from q have "formatQuantity (Num q) = Num (of_int \<lfloor>q * 10 ^ 2 + 1 / 2\<rfloor> / 10 ^ 2)"
    by (intro formatQuantity_small) simp_all
  ultimately show "formatQuantity (Num q) = Num (33 / 100)" by simp
qed

theorem scale_to_baseServings_witness:
  "adjustedIngredients
     \<lparr>baseServings = Num 4,
      ingredients = [\<lparr>ing_name = ''oil'', ing_quantity = Num (1 / 3), ing_unit = ''cup''\<rparr>]\<rparr>
     (Num 4)
   = [(\<lparr>ing_name = ''oil'', ing_quantity = Num (1 / 3), ing_unit = ''cup''\<rparr>, Num (33 / 100))]"
proof -
  let ?r = "\<lparr>baseServings = Num 4,
      ingredients = [\<lparr>ing_name = ''oil'', ing_quantity = Num (1 / 3), ing_unit = ''cup''\<rparr>]\<rparr>"
  have h: "baseServings ?r = Num 4" "(4::rat) \<noteq> 0" by simp_all
  from scale_to_baseServings [OF h] show ?thesis by simp
qed

section \<open>Properties of manual entry\<close>

text \<open>
  C1. The input \<open>2 cups spinach, 1 lime, 1 avocado\<close> is parsed into three items, in
  this order: cups spinach with quantity 2, lime with quantity 1, avocado with
  quantity 1.
\<close>

theorem parse_example:
  "parseManualEntry ''2 cups spinach, 1 lime, 1 avocado'' =
     [\<lparr>name = ''cups spinach'', quantity = Some (Num 2)\<rparr>,
      \<lparr>name = ''lime'', quantity = Some (Num 1)\<rparr>,
      \<lparr>name = ''avocado'', quantity = Some (Num 1)\<rparr>]"
  by code_simp

lemma dropWhile_no_head: "s = [] \<or> \<not> P (hd s) \<Longrightarrow> dropWhile P s = s"
  by (cases s) auto

lemma rev_dropWhile_rev_prefix:
  "s = rev (dropWhile P (rev s)) @ rev (takeWhile P (rev s))"
proof -
  have "rev (dropWhile P (rev s)) @ rev (takeWhile P (rev s))
      = rev (takeWhile P (rev s) @ dropWhile P (rev s))"
    by (simp only: rev_append)
  also have "\<dots> = s" by simp
  finally show ?thesis by (rule sym)
qed

lemma trim_fixed: "dropWhile isWhiteSpace (trim s) = trim s"
proof (rule dropWhile_no_head)
  define u where "u = dropWhile isWhiteSpace s"
  have t: "trim s = rev (dropWhile isWhiteSpace (rev u))" by (simp add: trim_def u_def)
  show "trim s = [] \<or> \<not> isWhiteSpace (hd (trim s))"
  proof (cases "trim s = []")
    case True
    then show ?thesis by simp
  next
    case False
    have "u = trim s @ rev (takeWhile isWhiteSpace (rev u))"
      unfolding t by (rule rev_dropWhile_rev_prefix)
    with False have h: "hd u = hd (trim s)" "u \<noteq> []" by (metis hd_append2, auto)
    from h(2) have "\<not> isWhiteSpace (hd u)" unfolding u_def by (rule hd_dropWhile)
    with h(1) show ?thesis by simp
  qed
qed

lemma trim_trim: "trim (trim s) = trim s"
proof -
  have "dropWhile isWhiteSpace (rev (trim s)) = rev (trim s)"
    by (simp add: trim_def)
  then show ?thesis
    by (simp add: trim_def [of "trim s"] trim_fixed)
qed

lemma name_parse_entry_trimmed:
  "trim (name (parse_entry (trim x))) = name (parse_entry (trim x))"
  by (simp add: parse_entry_def trim_trim Let_def split: option.splits prod.splits)

text \<open>
  C2, as the code has it. For every input text, the name of every item parsed from
  it has its surrounding white space trimmed.
\<close>

theorem parsed_names_trimmed:
  "\<forall>item \<in> set (parseManualEntry input). trim (name item) = name item"
  by (auto simp: parseManualEntry_def name_parse_entry_trimmed)

theorem parsed_names_trimmed_witness:
  "parseManualEntry '' 2 cups  spinach '' = [\<lparr>name = ''cups spinach'', quantity = Some (Num 2)\<rparr>]
   \<and> trim ''cups spinach'' = ''cups spinach''"
proof -
  have e: "parseManualEntry '' 2 cups  spinach ''
             = [\<lparr>name = ''cups spinach'', quantity = Some (Num 2)\<rparr>]"
    by code_simp
  from parsed_names_trimmed [of "'' 2 cups  spinach ''"] show ?thesis
    unfolding e by simp
qed

text \<open>
  C2 as stated fails: the entry \<open>Red  Onion\<close> is parsed into an item of that very
  name, capitals and double space kept, while its normal form is \<open>red onion\<close>.
\<close>

theorem parsed_name_not_normalized:
  "parseManualEntry ''Red  Onion'' = [\<lparr>name = ''Red  Onion'', quantity = None\<rparr>]
   \<and> normalize ''Red  Onion'' = ''red onion''"
  by code_simp

lemma greedy_star_split: "(m, r) \<in> set (greedy_star p s) \<Longrightarrow> s = m @ r"
  by (induction s arbitrary: m r) (auto split: if_splits)

lemma greedy_plus_split: "(m, r) \<in> set (greedy_plus p s) \<Longrightarrow> s = m @ r"
  by (auto simp: greedy_plus_def dest: greedy_star_split)

lemma opt_fraction_split: "(m, r) \<in> set (opt_fraction s) \<Longrightarrow> s = m @ r"
  by (auto simp: opt_fraction_def split: list.splits if_splits dest: greedy_plus_split)

lemma opt_unit_split: "(u, r) \<in> set (opt_unit s) \<Longrightarrow> \<exists>m. s = m @ r"
  by (auto simp: opt_unit_def dest: greedy_plus_split)

lemma greedy_plus_none: "s = [] \<or> \<not> p (hd s) \<Longrightarrow> greedy_plus p s = []"
  by (cases s) (auto simp: greedy_plus_def)

lemma bind_empty: "List.bind xs f = [] \<longleftrightarrow> (\<forall>x \<in> set xs. f x = [])"
  by (simp add: List.bind_def)

lemma no_space_no_match:
  assumes "\<forall>c \<in> set entry. \<not> isWhiteSpace c"
  shows "entry_matches entry = []"
proof -
  have key: "greedy_plus isWhiteSpace r4 = []"
    if "(i, r1) \<in> set (greedy_plus isDigit entry)" "(f, r2) \<in> set (opt_fraction r1)"
       "(w, r3) \<in> set (greedy_star isWhiteSpace r2)" "(u, r4) \<in> set (opt_unit r3)"
    for i r1 f r2 w r3 u r4
  proof -
    from that obtain m where "entry = i @ f @ w @ m @ r4"
      by (auto dest!: greedy_plus_split opt_fraction_split greedy_star_split opt_unit_split)
    with assms have "\<forall>c \<in> set r4. \<not> isWhiteSpace c" by simp
    then have "r4 = [] \<or> \<not> isWhiteSpace (hd r4)" by (cases r4) simp_all
    then show ?thesis by (rule greedy_plus_none)
  qed
  show ?thesis
    unfolding entry_matches_def bind_empty
    by (auto simp: key List.bind_def)
qed

lemma split_entries_one:
  "\<forall>c \<in> set s. c \<noteq> CHR '','' \<and> c \<noteq> CHR 0x0A \<Longrightarrow> split_entries s = [s]"
  by (induction s) auto

lemma trim_no_space: "\<forall>c \<in> set s. \<not> isWhiteSpace c \<Longrightarrow> trim s = s"
proof -
  assume a: "\<forall>c \<in> set s. \<not> isWhiteSpace c"
  then have "dropWhile isWhiteSpace s = s" by (cases s) simp_all
  moreover from a have "dropWhile isWhiteSpace (rev s) = rev s"
    by (cases "rev s") (simp, metis dropWhile.simps(2) list.set_intros(1) set_rev)
  ultimately show ?thesis by (simp add: trim_def)
qed

lemma bare_number_chars:
  assumes "bare_number s"
  shows "s \<noteq> [] \<and> (\<forall>c \<in> set s. isDigit c \<or> c = CHR ''.'')"
proof -
  define whole where "whole = takeWhile isDigit s"
  define rest where "rest = dropWhile isDigit s"
  have s: "s = whole @ rest" by (simp add: whole_def rest_def)
  have w: "\<forall>c \<in> set whole. isDigit c" unfolding whole_def by (auto dest: set_takeWhileD)
  from assms have ne: "whole \<noteq> []"
    and r: "rest = [] \<or> (hd rest = CHR ''.'' \<and> tl rest \<noteq> [] \<and> list_all isDigit (tl rest))"
    by (simp_all add: bare_number_def whole_def rest_def Let_def)
  have "\<forall>c \<in> set rest. isDigit c \<or> c = CHR ''.''"
  proof (cases rest)
    case Nil
    then show ?thesis by simp
  next
    case (Cons c cs)
    with r show ?thesis by (auto simp: list_all_iff)
  qed
  with w s ne show ?thesis by auto
qed

lemma digit_or_point_plain:
  "isDigit c \<or> c = CHR ''.'' \<Longrightarrow> \<not> isWhiteSpace c \<and> c \<noteq> CHR '','' \<and> c \<noteq> CHR 0x0A"
  by (auto simp: isDigit_def isWhiteSpace_def)

text \<open>
  C10. An entry that is a bare number, digits with or without a point and further
  digits, becomes an item whose name is the numeral itself and whose quantity is
  unset: the pattern asks for white space after the number, and the entry has none.
\<close>

theorem bare_number_unparsed:
  assumes "bare_number s"
  shows "parse_entry s = \<lparr>name = s, quantity = None\<rparr>
         \<and> parseManualEntry s = [\<lparr>name = s, quantity = None\<rparr>]"
proof -
  from assms have ne: "s \<noteq> []" and ch: "\<forall>c \<in> set s. isDigit c \<or> c = CHR ''.''"
    using bare_number_chars by blast+
  from ch have nosp: "\<forall>c \<in> set s. \<not> isWhiteSpace c"
    and nosep: "\<forall>c \<in> set s. c \<noteq> CHR '','' \<and> c \<noteq> CHR 0x0A"
    using digit_or_point_plain by blast+
  from nosp have "entry_matches s = []" by (rule no_space_no_match)
  then have p: "parse_entry s = \<lparr>name = s, quantity = None\<rparr>"
    by (simp add: parse_entry_def entry_match_def)
  from nosep have "split_entries s = [s]" by (rule split_entries_one)
  moreover from nosp have "trim s = s" by (rule trim_no_space)
  ultimately have "parseManualEntry s = [parse_entry s]"
    using ne by (simp add: parseManualEntry_def)
  with p show ?thesis by simp
qed

theorem bare_number_unparsed_witness:
  "bare_number ''2.5''
   \<and> parse_entry ''2.5'' = \<lparr>name = ''2.5'', quantity = None\<rparr>
   \<and> parseManualEntry ''2.5'' = [\<lparr>name = ''2.5'', quantity = None\<rparr>]"
proof -
  have h: "bare_number ''2.5''" by code_simp
  from bare_number_unparsed [OF h] show ?thesis using h by simp
qed

section \<open>Properties of the ingredients from vision\<close>

lemma detected_ingredients_surviving:
  "detected_ingredients predictions =
     map (\<lambda>p. \<lparr>score = pred_score p, className = toLowerCase (pred_class p)\<rparr>)
       (surviving predictions)"
  by (simp add: detected_ingredients_def surviving_def filter_map o_def conj_commute)

lemma surviving_drop_below:
  "surviving (filter (\<lambda>p. \<not> js_less (pred_score p) (Num (2 / 5))) predictions)
     = surviving predictions"
  unfolding surviving_def filter_filter
  by (rule filter_cong) (auto simp: js_ge_def)

lemma allowed_lowercase: "\<forall>l \<in> set allowedVisionLabels. toLowerCase l = l"
  unfolding allowedVisionLabels_def by code_simp

text \<open>
  C5. A detection of confidence exactly 0.4 whose lowercased label is in the
  allow-list is kept, and the item for it, of quantity 0.8, is in the result. No
  detection that is kept has a confidence below 0.4, and the result is the same as
  without the detections of confidence below 0.4. A label of the allow-list is its
  own lowercase form.
\<close>

theorem threshold_filter:
  "(\<forall>p \<in> set predictions.
      pred_score p = Num (2 / 5) \<and> toLowerCase (pred_class p) \<in> set allowedVisionLabels
      \<longrightarrow> \<lparr>score = Num (2 / 5), className = toLowerCase (pred_class p)\<rparr>
            \<in> set (detected_ingredients predictions)
          \<and> \<lparr>name = toLowerCase (pred_class p), quantity = Some (Num (4 / 5))\<rparr>
              \<in> set (pantry (detectIngredients predictions)))
   \<and> (\<forall>i \<in> set (detected_ingredients predictions). \<not> js_less (score i) (Num (2 / 5)))
   \<and> detectIngredients (filter (\<lambda>p. \<not> js_less (pred_score p) (Num (2 / 5))) predictions)
        = detectIngredients predictions
   \<and> (\<forall>l \<in> set allowedVisionLabels. toLowerCase l = l)"
proof (intro conjI ballI impI)
  fix p
  assume p: "p \<in> set predictions"
    and h: "pred_score p = Num (2 / 5) \<and> toLowerCase (pred_class p) \<in> set allowedVisionLabels"
  then have s: "p \<in> set (surviving predictions)"
    by (simp add: surviving_def js_ge_def)
  then have ne: "surviving predictions \<noteq> []" by auto
  have "\<lparr>score = Num (2 / 5), className = toLowerCase (pred_class p)\<rparr>
      = (\<lambda>p. \<lparr>score = pred_score p, className = toLowerCase (pred_class p)\<rparr>) p"
    using h by simp
  also have "\<dots> \<in> set (detected_ingredients predictions)"
    unfolding detected_ingredients_surviving set_map using s by (rule imageI)
  finally show "\<lparr>score = Num (2 / 5), className = toLowerCase (pred_class p)\<rparr>
      \<in> set (detected_ingredients predictions)" .
  have "parseFloat_toFixed 2 (js_times (pred_score p) (Num 2)) = Num (4 / 5)"
    using h by (simp add: parseFloat_toFixed_def floor_eq_iff)
  then have "\<lparr>name = toLowerCase (pred_class p), quantity = Some (Num (4 / 5))\<rparr>
      = (\<lambda>p. \<lparr>name = toLowerCase (pred_class p),
               quantity = Some (parseFloat_toFixed 2 (js_times (pred_score p) (Num 2)))\<rparr>) p"
    by simp
  also have "\<dots> \<in> set (pantry (detectIngredients predictions))"
    using s ne by (simp add: detectIngredients_def detected_ingredients_surviving o_def Let_def)
  finally show "\<lparr>name = toLowerCase (pred_class p), quantity = Some (Num (4 / 5))\<rparr>
      \<in> set (pantry (detectIngredients predictions))" .
next
  fix i
  assume "i \<in> set (detected_ingredients predictions)"
  then show "\<not> js_less (score i) (Num (2 / 5))"
    by (auto simp: detected_ingredients_def js_ge_def)
next
  show "detectIngredients (filter (\<lambda>p. \<not> js_less (pred_score p) (Num (2 / 5))) predictions)
        = detectIngredients predictions"
    by (simp only: detectIngredients_def detected_ingredients_surviving surviving_drop_below)
next
  fix l
  assume "l \<in> set allowedVisionLabels"
  with allowed_lowercase show "toLowerCase l = l" by blast
qed

theorem threshold_filter_witness:
  "\<lparr>name = ''banana'', quantity = Some (Num (4 / 5))\<rparr>
     \<in> set (pantry (detectIngredients
          [\<lparr>pred_class = ''Banana'', pred_score = Num (2 / 5)\<rparr>,
           \<lparr>pred_class = ''apple'', pred_score = Num (399 / 1000)\<rparr>]))
   \<and> detectIngredients [\<lparr>pred_class = ''Banana'', pred_score = Num (2 / 5)\<rparr>]
     = detectIngredients
          [\<lparr>pred_class = ''Banana'', pred_score = Num (2 / 5)\<rparr>,
           \<lparr>pred_class = ''apple'', pred_score = Num (399 / 1000)\<rparr>]"
proof -
  have l: "toLowerCase ''Banana'' = ''banana''" by code_simp
  have a: "''banana'' \<in> set allowedVisionLabels" by (simp add: allowedVisionLabels_def)
  from threshold_filter
         [of "[\<lparr>pred_class = ''Banana'', pred_score = Num (2 / 5)\<rparr>,
               \<lparr>pred_class = ''apple'', pred_score = Num (399 / 1000)\<rparr>]"]
  show ?thesis using l a by simp
qed

lemma surviving_Nil: "surviving [] = []"
  by (simp add: surviving_def)

lemma surviving_not_allowed:
  "\<forall>p \<in> set predictions. toLowerCase (pred_class p) \<notin> set allowedVisionLabels
     \<Longrightarrow> surviving predictions = []"
  by (simp add: surviving_def)

text \<open>
  C6. When no detection survives the confidence filter and the allow-list filter,
  the result is the empty item list with confidence 0. This is so for the empty
  list of detections, and for a list in which every confidence is at least 0.4 and
  no lowercased label is in the allow-list. The result is a value in every case:
  post-processing has no error to raise.
\<close>

theorem no_survivor_empty_result:
  "(surviving predictions = [] \<longrightarrow>
      detectIngredients predictions = \<lparr>pantry = [], visionConfidence = Num 0\<rparr>)
   \<and> detectIngredients [] = \<lparr>pantry = [], visionConfidence = Num 0\<rparr>
   \<and> ((\<forall>p \<in> set predictions.
          js_ge (pred_score p) (Num (2 / 5))
          \<and> toLowerCase (pred_class p) \<notin> set allowedVisionLabels) \<longrightarrow>
        detectIngredients predictions = \<lparr>pantry = [], visionConfidence = Num 0\<rparr>)"
proof -
  have e: "detectIngredients ps = \<lparr>pantry = [], visionConfidence = Num 0\<rparr>"
    if "surviving ps = []" for ps
    using that by (simp add: detectIngredients_def detected_ingredients_surviving)
  show ?thesis
    by (intro conjI impI e) (simp_all add: surviving_Nil surviving_not_allowed)
qed

theorem no_survivor_empty_result_witness:
  "detectIngredients [\<lparr>pred_class = ''person'', pred_score = Num (9 / 10)\<rparr>]
     = \<lparr>pantry = [], visionConfidence = Num 0\<rparr>"
proof -
  have l: "toLowerCase ''person'' = ''person''" by code_simp
  have a: "''person'' \<notin> set allowedVisionLabels" by (simp add: allowedVisionLabels_def)
  have g: "js_ge (Num (9 / 10)) (Num (2 / 5))" by (simp add: js_ge_def)
  from no_survivor_empty_result [of "[\<lparr>pred_class = ''person'', pred_score = Num (9 / 10)\<rparr>]"]
  show ?thesis using l a g by simp
qed



end
